theory Spec2Isabelle
  imports Main
begin

section \<open>Errors\<close>

text \<open>
  The exception classes of \<^verbatim>\<open>exceptions.py\<close>, and the built-in exceptions that
  the code of \<^verbatim>\<open>predictor.py\<close> can let escape: \<^verbatim>\<open>ValueError\<close> (raised by
  \<^verbatim>\<open>float\<close>), \<^verbatim>\<open>IndexError\<close> (raised by the array library when a boolean
  index does not have the length of the indexed array), \<^verbatim>\<open>OSError\<close> (raised by
  \<^verbatim>\<open>open\<close>, with its subclasses for a directory or a missing permission) and
  \<^verbatim>\<open>UnicodeDecodeError\<close> (raised by \<^verbatim>\<open>readlines\<close> on bytes that do not decode).
\<close>

datatype error =
    ModelNotFoundError
  | InvalidInputError
  | ChempropError
  | MolecularProcessingError
  | EnvironmentError
  | ValueError
  | IndexError
  | OSError
  | UnicodeDecodeError

section \<open>Strings\<close>

text \<open>
  A string is a list of characters; a character stands for a code point below 256.
  \<^verbatim>\<open>str.isspace\<close> holds on these code points for 9..13, 28..32, 133 and 160.
\<close>

definition py_isspace :: "char \<Rightarrow> bool" where
  "py_isspace c =
     (let n = (of_char c :: nat)
      in (9 \<le> n \<and> n \<le> 13) \<or> (28 \<le> n \<and> n \<le> 32) \<or> n = 133 \<or> n = 160)"

text \<open>\<^verbatim>\<open>s.strip()\<close>: whitespace removed at both ends.\<close>

definition py_strip :: "string \<Rightarrow> string" where
  "py_strip s = rev (dropWhile py_isspace (rev (dropWhile py_isspace s)))"

text \<open>
  \<^verbatim>\<open>s.split()\<close>: the maximal runs of non-whitespace characters, left to right.
  \<open>split_ws cur s\<close> scans \<open>s\<close> with the token \<open>cur\<close> read so far.
\<close>

fun split_ws :: "string \<Rightarrow> string \<Rightarrow> string list" where
  "split_ws cur [] = (if cur = [] then [] else [cur])"
| "split_ws cur (c # cs) =
     (if py_isspace c
      then (if cur = [] then split_ws [] cs else cur # split_ws [] cs)
      else split_ws (cur @ [c]) cs)"

definition py_split :: "string \<Rightarrow> string list" where
  "py_split s = split_ws [] s"

text \<open>
  \<^verbatim>\<open>s.split(", ")\<close>: the pieces between the occurrences of the separator, found
  left to right without overlap; there is always at least one piece.
\<close>

fun split_sep :: "string \<Rightarrow> string \<Rightarrow> string list" where
  "split_sep cur [] = [cur]"
| "split_sep cur (c # cs) =
     (case cs of
        [] \<Rightarrow> split_sep (cur @ [c]) cs
      | d # ds \<Rightarrow>
          if c = CHR '','' \<and> d = CHR '' '' then cur # split_sep [] ds
          else split_sep (cur @ [c]) cs)"

definition py_split_comma :: "string \<Rightarrow> string list" where
  "py_split_comma s = split_sep [] s"

text \<open>\<^verbatim>\<open>", ".join(xs)\<close>.\<close>

fun py_join_comma :: "string list \<Rightarrow> string" where
  "py_join_comma [] = []"
| "py_join_comma [x] = x"
| "py_join_comma (x # y # ys) = x @ '', '' @ py_join_comma (y # ys)"

section \<open>Numbers\<close>

text \<open>
  The numeric primitives the code calls are parameters of the model, over a type
  \<open>'v\<close> of numeric values: \<^verbatim>\<open>float(s)\<close> (\<open>None\<close> where it raises
  \<^verbatim>\<open>ValueError\<close>), \<^verbatim>\<open>str(x)\<close> of a number, \<^verbatim>\<open>str(x)\<close> of an array element,
  and \<^verbatim>\<open>round(x, 4)\<close>.
\<close>

record 'v numeric =
  py_float :: "string \<Rightarrow> 'v option"
  py_str :: "'v \<Rightarrow> string"
  np_str :: "'v \<Rightarrow> string"
  py_round4 :: "'v \<Rightarrow> 'v"

text \<open>
  The comprehension \<^verbatim>\<open>[float(x) for x in xs]\<close>: the list of the values, or
  \<open>None\<close> when \<^verbatim>\<open>float\<close> raises on an element.
\<close>

fun float_all :: "'v numeric \<Rightarrow> string list \<Rightarrow> 'v list option" where
  "float_all ops [] = Some []"
| "float_all ops (x # xs) =
     (case py_float ops x of
        None \<Rightarrow> None
      | Some v \<Rightarrow> (case float_all ops xs of None \<Rightarrow> None | Some vs \<Rightarrow> Some (v # vs)))"

section \<open>Transition-metal classifier\<close>

record atom =
  GetAtomicNum :: int

definition HYDROGEN :: int where
  "HYDROGEN = 1"

definition BORON_TO_FLUORINE_RANGE :: "int \<times> int" where
  "BORON_TO_FLUORINE_RANGE = (5, 9)"

definition SILICON_TO_CHLORINE_RANGE :: "int \<times> int" where
  "SILICON_TO_CHLORINE_RANGE = (14, 17)"

definition BROMINE :: int where
  "BROMINE = 35"

definition is_transition_metal :: "atom \<Rightarrow> bool" where
  "is_transition_metal a =
     (let atomic_num = GetAtomicNum a;
          is_hydrogen = (atomic_num = HYDROGEN);
          is_boron_to_fluorine =
            (fst BORON_TO_FLUORINE_RANGE \<le> atomic_num \<and> atomic_num \<le> snd BORON_TO_FLUORINE_RANGE);
          is_silicon_to_chlorine =
            (fst SILICON_TO_CHLORINE_RANGE \<le> atomic_num \<and> atomic_num \<le> snd SILICON_TO_CHLORINE_RANGE);
          is_bromine = (atomic_num = BROMINE)
      in \<not> (is_hydrogen \<or> is_boron_to_fluorine \<or> is_silicon_to_chlorine \<or> is_bromine))"

section \<open>Parsing the feature line\<close>

text \<open>
  \<^verbatim>\<open>_parse_features\<close>: the tokens of the stripped line after the first two, each
  converted by \<^verbatim>\<open>float\<close>; a \<^verbatim>\<open>ValueError\<close> is re-raised as
  \<^verbatim>\<open>InvalidInputError\<close>. A slice never raises.
\<close>

definition parse_features :: "'v numeric \<Rightarrow> string \<Rightarrow> error + 'v list" where
  "parse_features ops feature_line =
     (let feature_values = py_split (py_strip feature_line);
          selected_features = drop 2 feature_values
      in case float_all ops selected_features of
           None \<Rightarrow> Inl InvalidInputError
         | Some fs \<Rightarrow> Inr fs)"

section \<open>Feature assembly\<close>

text \<open>
  The mask is written in the source as a string of \<^verbatim>\<open>True\<close> and \<^verbatim>\<open>False\<close>
  tokens; \<^verbatim>\<open>FEATURE_MASK\<close> evaluates each token of its \<^verbatim>\<open>split()\<close>.
\<close>

definition MASK_STR :: string where
  "MASK_STR = ''False  True False False  True  True  True  True  True  True  True False False  True  True  True  True False  True  True  True  True False  True True True False False False False False False False False True False False False False False False True False False False False False False False False''"

text \<open>\<^verbatim>\<open>eval(x)\<close> on a token of the mask string, which is one of the two literals.\<close>

definition eval_bool :: "string \<Rightarrow> bool" where
  "eval_bool x = (x = ''True'')"

definition FEATURE_MASK :: "bool list" where
  "FEATURE_MASK = map eval_bool (py_split MASK_STR)"

text \<open>
  Indexing an array by a boolean array, \<^verbatim>\<open>a[mask]\<close>: the array library raises
  \<^verbatim>\<open>IndexError\<close> when the two lengths differ, and otherwise selects the
  elements at the positions where the mask holds.
\<close>

definition np_bool_index :: "'a list \<Rightarrow> bool list \<Rightarrow> error + 'a list" where
  "np_bool_index a msk =
     (if length msk \<noteq> length a then Inl IndexError
      else Inr (map fst (filter snd (zip a msk))))"

text \<open>
  \<^verbatim>\<open>_combine_features\<close>, in the steps of the source: the string
  \<^verbatim>\<open>combined_str\<close>, the array \<^verbatim>\<open>all_features\<close> parsed back from it, the
  array \<^verbatim>\<open>masked_features\<close>, and the returned string.
\<close>

definition combined_str :: "'v numeric \<Rightarrow> 'v list \<Rightarrow> string \<Rightarrow> string" where
  "combined_str ops features descriptors_str =
     (let rounded_features = map (py_round4 ops) features;
          feature_str = py_join_comma (map (py_str ops) rounded_features)
      in feature_str @ '', '' @ descriptors_str)"

definition all_features :: "'v numeric \<Rightarrow> 'v list \<Rightarrow> string \<Rightarrow> error + 'v list" where
  "all_features ops features descriptors_str =
     (case float_all ops (py_split_comma (combined_str ops features descriptors_str)) of
        None \<Rightarrow> Inl ValueError
      | Some vs \<Rightarrow> Inr vs)"

definition masked_features :: "'v numeric \<Rightarrow> 'v list \<Rightarrow> string \<Rightarrow> error + 'v list" where
  "masked_features ops features descriptors_str =
     (case all_features ops features descriptors_str of
        Inl e \<Rightarrow> Inl e
      | Inr vs \<Rightarrow> np_bool_index vs FEATURE_MASK)"

definition combine_features :: "'v numeric \<Rightarrow> 'v list \<Rightarrow> string \<Rightarrow> error + string" where
  "combine_features ops features descriptors_str =
     (case masked_features ops features descriptors_str of
        Inl e \<Rightarrow> Inl e
      | Inr ms \<Rightarrow> Inr (py_join_comma (map (np_str ops) ms)))"

section \<open>Descriptors\<close>

definition SELECTED_DESCRIPTORS :: "string list" where
  "SELECTED_DESCRIPTORS =
    [''PEOE_VSA1'', ''PEOE_VSA10'', ''PEOE_VSA11'', ''PEOE_VSA12'',
     ''PEOE_VSA13'', ''PEOE_VSA14'', ''PEOE_VSA2'', ''PEOE_VSA3'',
     ''PEOE_VSA4'', ''PEOE_VSA5'', ''PEOE_VSA6'', ''PEOE_VSA7'',
     ''PEOE_VSA8'', ''PEOE_VSA9'', ''RingCount'', ''SMR_VSA1'',
     ''SMR_VSA10'', ''SMR_VSA2'', ''SMR_VSA3'', ''SMR_VSA4'',
     ''SMR_VSA5'', ''SMR_VSA6'', ''SMR_VSA7'', ''SMR_VSA8'',
     ''SMR_VSA9'', ''SlogP_VSA1'', ''SlogP_VSA10'', ''SlogP_VSA11'',
     ''SlogP_VSA12'', ''SlogP_VSA2'', ''SlogP_VSA3'', ''SlogP_VSA4'',
     ''SlogP_VSA5'', ''SlogP_VSA6'', ''SlogP_VSA7'', ''SlogP_VSA8'',
     ''SlogP_VSA9'', ''TPSA'', ''VSA_EState1'', ''VSA_EState10'']"

text \<open>
  \<^verbatim>\<open>calculate_descriptors\<close>. The descriptor calculator of the chemistry library
  is built from the list of names and returns one value for each name, in the order
  of the list; \<open>descriptor\<close> is the function that the library's catalogue holds
  under a name. The library records a failing descriptor as a value, so the call
  itself does not raise.
\<close>

definition CalcDescriptors :: "(string \<Rightarrow> 'm \<Rightarrow> 'v) \<Rightarrow> string list \<Rightarrow> 'm \<Rightarrow> 'v list" where
  "CalcDescriptors descriptor simpleList m = map (\<lambda>nm. descriptor nm m) simpleList"

definition calculate_descriptors :: "'v numeric \<Rightarrow> (string \<Rightarrow> 'm \<Rightarrow> 'v) \<Rightarrow> 'm \<Rightarrow> string" where
  "calculate_descriptors ops descriptor m =
     (let descriptor_vals = CalcDescriptors descriptor SELECTED_DESCRIPTORS m;
          descriptor_strs = map (py_str ops) descriptor_vals
      in py_join_comma descriptor_strs)"

section \<open>Exchange files\<close>

text \<open>
  \<^verbatim>\<open>_create_input_files\<close> writes two files; the model returns their contents,
  the structure file first.
\<close>

definition feature_header :: string where
  "feature_header = ''I_in, Z_lig, Z_met, nrot, met_r, met_CN, E_strain, G_solv, rdhE, rdhC''"

definition create_input_files :: "string \<Rightarrow> string \<Rightarrow> string \<times> string" where
  "create_input_files smiles features =
     (''smiles'' @ [CHR 10] @ smiles @ [CHR 10],
      feature_header @ [CHR 10] @ features @ [CHR 10])"

section \<open>Molecular graph and dative bonds\<close>

text \<open>
  The molecule of the chemistry library, as far as the code of
  \<^verbatim>\<open>molecular_processing.py\<close> reads and edits it: the atoms, an atom's index being
  its position, and the bonds in the order of their indices. In a molecule of the
  library every bond joins two different atoms of the molecule and no two bonds join
  the same pair.
\<close>

datatype BondType = UNSPECIFIED | SINGLE | DOUBLE | TRIPLE | AROMATIC | DATIVE

record bond =
  GetBeginAtomIdx :: nat
  GetEndAtomIdx :: nat
  GetBondType :: BondType

record mol =
  GetAtoms :: "atom list"
  GetBonds :: "bond list"

definition joins :: "bond \<Rightarrow> nat \<Rightarrow> nat \<Rightarrow> bool" where
  "joins b i j =
     (GetBeginAtomIdx b = i \<and> GetEndAtomIdx b = j \<or> GetBeginAtomIdx b = j \<and> GetEndAtomIdx b = i)"

text \<open>\<^verbatim>\<open>atom.GetNeighbors()\<close>: the other ends of the atom's bonds, in the order of the bonds.\<close>

definition GetNeighbors :: "mol \<Rightarrow> nat \<Rightarrow> nat list" where
  "GetNeighbors m i =
     concat (map (\<lambda>b. if GetBeginAtomIdx b = i then [GetEndAtomIdx b]
                        else if GetEndAtomIdx b = i then [GetBeginAtomIdx b] else [])
                 (GetBonds m))"

text \<open>
  \<^verbatim>\<open>mol.RemoveBond(i, j)\<close> removes the bond between the two atoms, if there is one, and
  keeps the order of the others; \<^verbatim>\<open>mol.AddBond(i, j, t)\<close> appends a bond from \<open>i\<close> to
  \<open>j\<close>, and raises (\<open>None\<close>) when the two atoms are the same or already bonded.
\<close>

fun remove_joining :: "nat \<Rightarrow> nat \<Rightarrow> bond list \<Rightarrow> bond list" where
  "remove_joining i j [] = []"
| "remove_joining i j (b # bs) = (if joins b i j then bs else b # remove_joining i j bs)"

definition RemoveBond :: "mol \<Rightarrow> nat \<Rightarrow> nat \<Rightarrow> mol" where
  "RemoveBond m i j = m\<lparr>GetBonds := remove_joining i j (GetBonds m)\<rparr>"

definition AddBond :: "mol \<Rightarrow> nat \<Rightarrow> nat \<Rightarrow> BondType \<Rightarrow> mol option" where
  "AddBond m i j t =
     (if i = j \<or> (\<exists>b \<in> set (GetBonds m). joins b i j) then None
      else Some (m\<lparr>GetBonds := GetBonds m @
                 [\<lparr>GetBeginAtomIdx = i, GetEndAtomIdx = j, GetBondType = t\<rparr>]\<rparr>))"

definition DEFAULT_DONOR_ATOMS :: "int list" where
  "DEFAULT_DONOR_ATOMS = [7, 8]"

text \<open>\<^verbatim>\<open>_find_transition_metals\<close>: the indices of the atoms classified as metals.\<close>

definition find_transition_metals :: "mol \<Rightarrow> nat list" where
  "find_transition_metals m =
     filter (\<lambda>i. is_transition_metal (GetAtoms m ! i)) [0..<length (GetAtoms m)]"

text \<open>
  \<^verbatim>\<open>_convert_bonds_to_dative\<close>: for each metal, in turn, its neighbours as they are
  when its turn comes; for each neighbour that is a donor, the bond is removed and added
  again as a dative bond from the neighbour to the metal.
\<close>

fun convert_neighbors :: "int list \<Rightarrow> nat \<Rightarrow> nat list \<Rightarrow> mol \<Rightarrow> mol option" where
  "convert_neighbors donor_atoms metal [] m = Some m"
| "convert_neighbors donor_atoms metal (neighbor # ns) m =
     (if GetAtomicNum (GetAtoms m ! neighbor) \<in> set donor_atoms
      then (case AddBond (RemoveBond m neighbor metal) neighbor metal DATIVE of
              None \<Rightarrow> None
            | Some m' \<Rightarrow> convert_neighbors donor_atoms metal ns m')
      else convert_neighbors donor_atoms metal ns m)"

fun convert_bonds_to_dative :: "int list \<Rightarrow> nat list \<Rightarrow> mol \<Rightarrow> mol option" where
  "convert_bonds_to_dative donor_atoms [] m = Some m"
| "convert_bonds_to_dative donor_atoms (metal # metals) m =
     (case convert_neighbors donor_atoms metal (GetNeighbors m metal) m of
        None \<Rightarrow> None
      | Some m' \<Rightarrow> convert_bonds_to_dative donor_atoms metals m')"

text \<open>
  The functions of the chemistry library that the code calls and that are not modelled
  further: the parser of a MOL block (\<open>None\<close> where it returns \<^verbatim>\<open>None\<close> or raises),
  sanitization with the flags of \<^verbatim>\<open>_sanitize_molecule\<close> (errors are caught by the
  library), the descriptor function that the catalogue holds under a name, and the
  writer of the linear notation (\<open>None\<close> where it raises).
\<close>

record 'v rdkit =
  MolFromMolBlock :: "string \<Rightarrow> mol option"
  SanitizeMol :: "mol \<Rightarrow> mol"
  Descriptor :: "string \<Rightarrow> mol \<Rightarrow> 'v"
  MolToSmiles :: "mol \<Rightarrow> string option"

text \<open>
  \<^verbatim>\<open>set_dative_bonds\<close>: the copy is the molecule itself, and relaxing the property
  cache changes neither atoms nor bonds; every exception is re-raised as
  \<^verbatim>\<open>MolecularProcessingError\<close>.
\<close>

definition set_dative_bonds :: "'v rdkit \<Rightarrow> mol \<Rightarrow> int list \<Rightarrow> error + mol" where
  "set_dative_bonds rd m donor_atoms =
     (let metals = find_transition_metals m
      in case convert_bonds_to_dative donor_atoms metals m of
           None \<Rightarrow> Inl MolecularProcessingError
         | Some rwmol \<Rightarrow> Inr (SanitizeMol rd rwmol))"

section \<open>Cleaning the linear notation\<close>

text \<open>
  The character classes \<^verbatim>\<open>[A-Z]\<close>, \<^verbatim>\<open>[a-z]\<close> and \<^verbatim>\<open>\d\<close>; below 256 the decimal
  digits are the ten ASCII digits.
\<close>

definition is_digit :: "char \<Rightarrow> bool" where
  "is_digit c = (let n = (of_char c :: nat) in 48 \<le> n \<and> n \<le> 57)"

definition is_upper :: "char \<Rightarrow> bool" where
  "is_upper c = (let n = (of_char c :: nat) in 65 \<le> n \<and> n \<le> 90)"

definition is_lower :: "char \<Rightarrow> bool" where
  "is_lower c = (let n = (of_char c :: nat) in 97 \<le> n \<and> n \<le> 122)"

text \<open>
  The regular expressions of \<^verbatim>\<open>clean_smiles\<close> are built from characters, character
  classes, sequences and optional items. \<open>rests p s\<close> lists, for every way in which
  \<open>p\<close> matches at the head of \<open>s\<close>, the rest of \<open>s\<close> after the match, in the order
  in which the backtracking engine tries them: an optional item is tried present
  first and absent second.
\<close>

datatype regex = Lit char | Cls "char \<Rightarrow> bool" | Cat regex regex | Opt regex

fun rests :: "regex \<Rightarrow> string \<Rightarrow> string list" where
  "rests (Lit a) s = (case s of [] \<Rightarrow> [] | c # r \<Rightarrow> if c = a then [r] else [])"
| "rests (Cls P) s = (case s of [] \<Rightarrow> [] | c # r \<Rightarrow> if P c then [r] else [])"
| "rests (Cat p q) s = concat (map (rests q) (rests p s))"
| "rests (Opt p) s = rests p s @ [s]"

text \<open>
  A pattern of two groups, matched at the head of a string: the first way that the
  engine finds, as the text of the first group, the text of the second group and the
  rest of the string.
\<close>

definition first_match :: "regex \<Rightarrow> regex \<Rightarrow> string \<Rightarrow> (string \<times> string \<times> string) option" where
  "first_match g1 g2 s =
     (case concat (map (\<lambda>r1. map (Pair r1) (rests g2 r1)) (rests g1 s)) of
        [] \<Rightarrow> None
      | (r1, r2) # others \<Rightarrow>
          Some (take (length s - length r1) s, take (length r1 - length r2) r1, r2))"

text \<open>
  \<^verbatim>\<open>re.sub\<close> for a pattern of two groups that matches no empty string, with a
  replacement made of the two groups: the string is scanned from the left; where the
  pattern matches, the replacement is written and the scan goes on after the match;
  elsewhere the character is copied. The test on the lengths holds for every match of
  a pattern that matches no empty string (\<open>first_match_shorter\<close>).
\<close>

fun re_sub :: "regex \<Rightarrow> regex \<Rightarrow> (string \<Rightarrow> string \<Rightarrow> string) \<Rightarrow> string \<Rightarrow> string" where
  "re_sub g1 g2 repl [] = []"
| "re_sub g1 g2 repl (c # cs) =
     (case first_match g1 g2 (c # cs) of
        None \<Rightarrow> c # re_sub g1 g2 repl cs
      | Some (t1, t2, rest) \<Rightarrow>
          if length rest \<le> length cs then repl t1 t2 @ re_sub g1 g2 repl rest
          else c # re_sub g1 g2 repl cs)"

text \<open>
  The groups of the two patterns: \<^verbatim>\<open>->\[[A-Z][a-z]?\<close>, \<^verbatim>\<open>H\d?\<close> and
  \<^verbatim>\<open>\+\d?\]<-\<close>. The first pattern is \<^verbatim>\<open>(->\[[A-Z][a-z]?)(H\d?)\<close>, replaced by its
  first group; the second is \<^verbatim>\<open>(H\d?)(\+\d?\]<-)\<close>, replaced by its second group.
\<close>

definition dative_open_metal :: regex where
  "dative_open_metal =
     Cat (Lit (CHR ''-'')) (Cat (Lit (CHR ''>'')) (Cat (Lit (CHR ''[''))
       (Cat (Cls is_upper) (Opt (Cls is_lower)))))"

definition hydrogen_count :: regex where
  "hydrogen_count = Cat (Lit (CHR ''H'')) (Opt (Cls is_digit))"

definition charge_dative_close :: regex where
  "charge_dative_close =
     Cat (Lit (CHR ''+'')) (Cat (Opt (Cls is_digit))
       (Cat (Lit (CHR '']'')) (Cat (Lit (CHR ''<'')) (Lit (CHR ''-'')))))"

definition clean_smiles :: "string \<Rightarrow> string" where
  "clean_smiles smiles =
     (let cleaned_smiles = re_sub dative_open_metal hydrogen_count (\<lambda>g1 g2. g1) smiles
      in re_sub hydrogen_count charge_dative_close (\<lambda>g1 g2. g2) cleaned_smiles)"



section \<open>Processing a MOL block\<close>

text \<open>
  \<^verbatim>\<open>process_mol_block\<close>: parse, set the dative bonds with the default donors,
  compute the descriptor string, write and clean the linear notation. Whatever is
  raised on the way is re-raised as \<^verbatim>\<open>MolecularProcessingError\<close>.
\<close>

definition process_mol_block ::
  "'v numeric \<Rightarrow> 'v rdkit \<Rightarrow> string \<Rightarrow> error + (mol \<times> string \<times> string)" where
  "process_mol_block ops rd mol_block =
     (case MolFromMolBlock rd mol_block of
        None \<Rightarrow> Inl MolecularProcessingError
      | Some m \<Rightarrow>
          (case set_dative_bonds rd m DEFAULT_DONOR_ATOMS of
             Inl e \<Rightarrow> Inl MolecularProcessingError
           | Inr mol_with_dative \<Rightarrow>
               (let descriptors = calculate_descriptors ops (Descriptor rd) mol_with_dative
                in case MolToSmiles rd mol_with_dative of
                     None \<Rightarrow> Inl MolecularProcessingError
                   | Some smiles \<Rightarrow> Inr (mol_with_dative, descriptors, clean_smiles smiles))))"

section \<open>Prediction\<close>

text \<open>
  \<^verbatim>\<open>predict\<close>. The prediction engine is a parameter: from the contents of the
  structure file and of the features file it gives the prediction, or the error that
  \<^verbatim>\<open>_run_chemprop_prediction\<close> or \<^verbatim>\<open>_extract_prediction\<close> raises.
\<close>

definition predict ::
  "'v numeric \<Rightarrow> 'v rdkit \<Rightarrow> (string \<Rightarrow> string \<Rightarrow> error + 'v) \<Rightarrow> 'v list \<Rightarrow> string \<Rightarrow> error + 'v" where
  "predict ops rd chemprop features mol_block =
     (case process_mol_block ops rd mol_block of
        Inl e \<Rightarrow> Inl e
      | Inr (m, descriptors_str, smiles) \<Rightarrow>
          (case combine_features ops features descriptors_str of
             Inl e \<Rightarrow> Inl e
           | Inr combined_features \<Rightarrow>
               (case create_input_files smiles combined_features of
                  (input_csv, features_csv) \<Rightarrow> chemprop input_csv features_csv)))"

text \<open>
  \<^verbatim>\<open>_extract_mol_block\<close>: the lines before the first line that is \<^verbatim>\<open>$$$$\<close> once
  stripped, or all the lines when there is no such line; no line at all is an error.
\<close>

definition extract_mol_block :: "string list \<Rightarrow> error + string" where
  "extract_mol_block lines =
     (let mol_lines = takeWhile (\<lambda>line. py_strip line \<noteq> ''$$$$'') lines
      in if mol_lines = [] then Inl InvalidInputError else Inr (concat mol_lines))"

text \<open>
  What \<^verbatim>\<open>predict_from_file\<close> finds at the path: nothing; something that
  \<^verbatim>\<open>open\<close> refuses (a directory, a file without read permission); a file whose
  bytes \<^verbatim>\<open>readlines\<close> cannot decode; or a file that reads, as the list of lines
  \<^verbatim>\<open>readlines()\<close> gives. The code checks that the path exists and guards neither
  \<^verbatim>\<open>open\<close> nor \<^verbatim>\<open>readlines\<close>: what they raise escapes as it is.
\<close>

datatype input_file = Absent | OpenFails | DecodeFails | Lines "string list"

definition predict_from_file ::
  "'v numeric \<Rightarrow> 'v rdkit \<Rightarrow> (string \<Rightarrow> string \<Rightarrow> error + 'v) \<Rightarrow> input_file \<Rightarrow> error + 'v" where
  "predict_from_file ops rd chemprop input_file =
     (case input_file of
        Absent \<Rightarrow> Inl InvalidInputError
      | OpenFails \<Rightarrow> Inl OSError
      | DecodeFails \<Rightarrow> Inl UnicodeDecodeError
      | Lines lines \<Rightarrow>
          if length lines < 3 then Inl InvalidInputError
          else (case parse_features ops (lines ! 1) of
                  Inl e \<Rightarrow> Inl e
                | Inr features \<Rightarrow>
                    (case extract_mol_block (drop 2 lines) of
                       Inl e \<Rightarrow> Inl e
                     | Inr mol_block \<Rightarrow> predict ops rd chemprop features mol_block)))"

section \<open>Numbers as text\<close>

text \<open>
  Two notions for stating what the assembly does with a number that it prints and reads
  back: the number is \<open>printable\<close> when its \<^verbatim>\<open>str\<close> holds no comma and
  \<^verbatim>\<open>float\<close> accepts it, and \<open>reread\<close> is the value \<^verbatim>\<open>float\<close> then gives.
\<close>

definition printable :: "'v numeric \<Rightarrow> 'v \<Rightarrow> bool" where
  "printable ops v = (CHR '','' \<notin> set (py_str ops v) \<and> py_float ops (py_str ops v) \<noteq> None)"

definition reread :: "'v numeric \<Rightarrow> 'v \<Rightarrow> 'v" where
  "reread ops v = the (py_float ops (py_str ops v))"

text \<open>
  An instance of the numeric primitives for running the model on concrete inputs:
  the whole numbers. \<^verbatim>\<open>float\<close> reads a decimal literal \<^verbatim>\<open>d...d\<close> or
  \<^verbatim>\<open>d...d.0\<close> (and rejects every other string, the empty one among them);
  \<^verbatim>\<open>str\<close> prints a whole number as \<^verbatim>\<open>d...d.0\<close>; rounding to four places
  leaves a whole number as it is.
\<close>

fun decimal :: "nat \<Rightarrow> string" where
  "decimal n =
     (if n < 10 then [char_of (48 + n)]
      else decimal (n div 10) @ [char_of (48 + n mod 10)])"

definition read_decimal :: "string \<Rightarrow> nat" where
  "read_decimal s = foldl (\<lambda>n c. 10 * n + (of_char c - 48)) 0 s"

definition whole_float :: "string \<Rightarrow> nat option" where
  "whole_float s =
     (let k = length s - 2;
          t = (if 2 \<le> length s \<and> drop k s = ''.0'' then take k s else s)
      in if t \<noteq> [] \<and> list_all is_digit t then Some (read_decimal t) else None)"

definition whole_str :: "nat \<Rightarrow> string" where
  "whole_str n = decimal n @ ''.0''"

definition whole_numbers :: "nat numeric" where
  "whole_numbers =
     \<lparr>py_float = whole_float, py_str = whole_str, np_str = whole_str, py_round4 = (\<lambda>n. n)\<rparr>"

text \<open>
  For concrete runs of the pipeline: a parser that rejects every MOL block, and one
  that reads every block as a molecule of one iron atom bonded to two nitrogen atoms
  whose descriptors are all 7; and an engine that answers 3.
\<close>

definition no_parse :: "nat rdkit" where
  "no_parse =
     \<lparr>MolFromMolBlock = (\<lambda>s. None), SanitizeMol = (\<lambda>m. m), Descriptor = (\<lambda>nm m. 7),
      MolToSmiles = (\<lambda>m. Some ''N->[Fe]<-N'')\<rparr>"

definition iron_diammine :: mol where
  "iron_diammine =
     \<lparr>GetAtoms = [\<lparr>GetAtomicNum = 26\<rparr>, \<lparr>GetAtomicNum = 7\<rparr>, \<lparr>GetAtomicNum = 7\<rparr>],
      GetBonds = [\<lparr>GetBeginAtomIdx = 0, GetEndAtomIdx = 1, GetBondType = SINGLE\<rparr>,
                  \<lparr>GetBeginAtomIdx = 0, GetEndAtomIdx = 2, GetBondType = SINGLE\<rparr>]\<rparr>"

definition one_molecule :: "nat rdkit" where
  "one_molecule =
     \<lparr>MolFromMolBlock = (\<lambda>s. Some iron_diammine), SanitizeMol = (\<lambda>m. m),
      Descriptor = (\<lambda>nm m. 7), MolToSmiles = (\<lambda>m. Some ''N->[Fe]<-N'')\<rparr>"

definition engine_3 :: "string \<Rightarrow> string \<Rightarrow> error + nat" where
  "engine_3 input_csv features_csv = Inr 3"

section \<open>Properties\<close>

subsection \<open>Strings and lists\<close>

lemma float_all_eq:
  "float_all ops xs =
     (if \<exists>x \<in> set xs. py_float ops x = None then None
      else Some (map (\<lambda>x. the (py_float ops x)) xs))"
  by (induction xs) (auto split: option.splits)

lemma split_ws_all_space:
  "\<forall>c \<in> set ws. py_isspace c \<Longrightarrow> split_ws cur ws = (if cur = [] then [] else [cur])"
  by (induction ws arbitrary: cur) auto

lemma split_ws_append_space:
  "\<forall>c \<in> set ws. py_isspace c \<Longrightarrow> split_ws cur (s @ ws) = split_ws cur s"
  by (induction s arbitrary: cur) (auto simp: split_ws_all_space)

lemma split_ws_dropWhile:
  "split_ws [] (dropWhile py_isspace s) = split_ws [] s"
  by (induction s) auto

lemma rev_dropWhile_rev:
  "rev (dropWhile P (rev s)) @ rev (takeWhile P (rev s)) = s"
  by (simp flip: rev_append)

lemma split_ws_strip_right:
  "split_ws cur (rev (dropWhile py_isspace (rev t))) = split_ws cur t"
proof -
  have "\<forall>c \<in> set (rev (takeWhile py_isspace (rev t))). py_isspace c"
    by (auto dest: set_takeWhileD)
  from split_ws_append_space [OF this, of cur "rev (dropWhile py_isspace (rev t))"]
  show ?thesis
    by (simp only: rev_dropWhile_rev)
qed

lemma py_split_strip: "py_split (py_strip s) = py_split s"
  unfolding py_split_def py_strip_def
  by (simp only: split_ws_strip_right split_ws_dropWhile)

lemma split_ws_tokens:
  "t \<in> set (split_ws cur s) \<Longrightarrow> \<forall>c \<in> set cur. \<not> py_isspace c \<Longrightarrow>
   t \<noteq> [] \<and> (\<forall>c \<in> set t. \<not> py_isspace c)"
proof (induction s arbitrary: cur)
  case Nil
  then show ?case
    by (cases "cur = []") simp_all
next
  case (Cons c s)
  show ?case
  proof (cases "py_isspace c")
    case True
    with Cons.prems(1) have "t = cur \<and> cur \<noteq> [] \<or> t \<in> set (split_ws [] s)"
      by (cases "cur = []") simp_all
    then show ?thesis
    proof
      assume "t = cur \<and> cur \<noteq> []"
      with Cons.prems(2) show ?thesis by simp
    next
      assume "t \<in> set (split_ws [] s)"
      moreover have "\<forall>d \<in> set []. \<not> py_isspace d"
        by simp
      ultimately show ?thesis
        by (rule Cons.IH)
    qed
  next
    case False
    with Cons.prems(1) have "t \<in> set (split_ws (cur @ [c]) s)"
      by simp
    moreover have "\<forall>d \<in> set (cur @ [c]). \<not> py_isspace d"
      using Cons.prems(2) False by simp
    ultimately show ?thesis
      by (rule Cons.IH)
  qed
qed

lemma split_ws_concat:
  "concat (split_ws cur s) = cur @ filter (\<lambda>c. \<not> py_isspace c) s"
  by (induction s arbitrary: cur) auto

lemma split_sep_no_comma:
  "CHR '','' \<notin> set x \<Longrightarrow> split_sep cur (x @ rest) = split_sep (cur @ x) rest"
proof (induction x arbitrary: cur)
  case Nil
  then show ?case by simp
next
  case (Cons c x)
  then have "c \<noteq> CHR '',''"
    and IH: "split_sep (cur @ [c]) (x @ rest) = split_sep ((cur @ [c]) @ x) rest"
    by auto
  then show ?case
    by (cases "x @ rest") simp_all
qed

lemma split_sep_sep: "split_sep cur ('', '' @ rest) = cur # split_sep [] rest"
  by simp

lemma split_sep_join:
  "xs \<noteq> [] \<Longrightarrow> \<forall>x \<in> set xs. CHR '','' \<notin> set x \<Longrightarrow>
   split_sep cur (py_join_comma xs) = (cur @ hd xs) # tl xs"
proof (induction xs arbitrary: cur rule: py_join_comma.induct)
  case 1
  then show ?case by simp
next
  case (2 x)
  then show ?case
    using split_sep_no_comma [of x cur "[]"] by simp
next
  case (3 x y ys)
  have "split_sep cur (x @ '', '' @ py_join_comma (y # ys)) =
      split_sep (cur @ x) ('', '' @ py_join_comma (y # ys))"
    using 3 by (intro split_sep_no_comma) simp
  also have "\<dots> = (cur @ x) # split_sep [] (py_join_comma (y # ys))"
    by (rule split_sep_sep)
  also have "split_sep [] (py_join_comma (y # ys)) = ([] @ hd (y # ys)) # tl (y # ys)"
    using 3 by (intro "3.IH") simp_all
  finally show ?case by simp
qed

lemma py_split_comma_join:
  "xs \<noteq> [] \<Longrightarrow> \<forall>x \<in> set xs. CHR '','' \<notin> set x \<Longrightarrow>
   py_split_comma (py_join_comma xs) = xs"
  by (simp add: py_split_comma_def split_sep_join)

lemma py_join_comma_append:
  "xs \<noteq> [] \<Longrightarrow> ys \<noteq> [] \<Longrightarrow>
   py_join_comma xs @ '', '' @ py_join_comma ys = py_join_comma (xs @ ys)"
proof (induction xs rule: py_join_comma.induct)
  case 1
  then show ?case by simp
next
  case (2 x)
  then show ?case by (cases ys) simp_all
next
  case (3 x y ys')
  then show ?case by simp
qed

lemma upt_0_Suc_map: "[0..<Suc n] = 0 # map Suc [0..<n]"
  by (subst upt_conv_Cons) (simp_all only: zero_less_Suc map_Suc_upt)

lemma np_bool_index_nth:
  "length a = length msk \<Longrightarrow>
   map fst (filter snd (zip a msk)) = map ((!) a) (filter ((!) msk) [0..<length msk])"
proof (induction a msk rule: list_induct2)
  case Nil
  then show ?case by simp
next
  case (Cons x xs b bs)
  have "[0..<length (b # bs)] = 0 # map Suc [0..<length bs]"
    by (simp only: length_Cons upt_0_Suc_map)
  then show ?case
    using Cons by (simp add: filter_map comp_def del: upt_Suc)
qed

lemma count_filter_nth:
  "length (filter ((!) msk) [0..<length msk]) = count_list msk True"
proof (induction msk)
  case Nil
  then show ?case by simp
next
  case (Cons b bs)
  have "[0..<length (b # bs)] = 0 # map Suc [0..<length bs]"
    by (simp only: length_Cons upt_0_Suc_map)
  then show ?case
    using Cons by (simp add: filter_map comp_def del: upt_Suc)
qed

lemma FEATURE_MASK_value:
  "FEATURE_MASK =
    [False, True, False, False, True, True, True, True, True, True,
     True, False, False, True, True, True, True, False, True, True,
     True, True, False, True, True, True, False, False, False, False,
     False, False, False, False, True, False, False, False, False, False,
     False, True, False, False, False, False, False, False, False, False]"
  by (simp add: FEATURE_MASK_def MASK_STR_def py_split_def py_isspace_def eval_bool_def)

lemma length_FEATURE_MASK: "length FEATURE_MASK = 50"
  by (simp add: FEATURE_MASK_value)

lemma count_FEATURE_MASK: "count_list FEATURE_MASK True = 21"
  by (simp add: FEATURE_MASK_value)

lemma length_SELECTED_DESCRIPTORS: "length SELECTED_DESCRIPTORS = 40"
  by (simp add: SELECTED_DESCRIPTORS_def)

lemma parse_features_eq:
  "parse_features ops line =
     (if \<exists>t \<in> set (drop 2 (py_split line)). py_float ops t = None
      then Inl InvalidInputError
      else Inr (map (\<lambda>t. the (py_float ops t)) (drop 2 (py_split line))))"
  by (simp add: parse_features_def py_split_strip float_all_eq Let_def)

subsection \<open>Assembly of the combined vector\<close>

lemma split_sep_join_rest:
  "xs \<noteq> [] \<Longrightarrow> \<forall>x \<in> set xs. CHR '','' \<notin> set x \<Longrightarrow>
   split_sep cur (py_join_comma xs @ '', '' @ rest) = (cur @ hd xs) # tl xs @ split_sep [] rest"
proof (induction xs arbitrary: cur rule: py_join_comma.induct)
  case 1
  then show ?case by simp
next
  case (2 x)
  have "split_sep cur (x @ '', '' @ rest) = split_sep (cur @ x) ('', '' @ rest)"
    using 2 by (intro split_sep_no_comma) simp
  also have "\<dots> = (cur @ x) # split_sep [] rest"
    by (rule split_sep_sep)
  finally show ?case by simp
next
  case (3 x y ys)
  let ?tail = "py_join_comma (y # ys) @ '', '' @ rest"
  have "split_sep cur (x @ '', '' @ ?tail) = split_sep (cur @ x) ('', '' @ ?tail)"
    using 3 by (intro split_sep_no_comma) simp
  also have "\<dots> = (cur @ x) # split_sep [] ?tail"
    by (rule split_sep_sep)
  also have "split_sep [] ?tail = ([] @ hd (y # ys)) # tl (y # ys) @ split_sep [] rest"
    using 3 by (intro "3.IH") simp_all
  finally show ?case by simp
qed

lemma float_all_append:
  "float_all ops (xs @ ys) =
     (case float_all ops xs of
        None \<Rightarrow> None
      | Some a \<Rightarrow> (case float_all ops ys of None \<Rightarrow> None | Some b \<Rightarrow> Some (a @ b)))"
  by (induction xs) (simp_all split: option.splits)

lemma float_all_printable:
  "\<forall>v \<in> set vs. printable ops v \<Longrightarrow>
   float_all ops (map (py_str ops) vs) = Some (map (reread ops) vs)"
  by (induction vs) (auto simp: printable_def reread_def)

lemma float_all_length: "float_all ops xs = Some vs \<Longrightarrow> length vs = length xs"
  by (induction xs arbitrary: vs) (auto split: option.splits)

lemma py_split_comma_combined:
  assumes "fs \<noteq> []" and "\<forall>v \<in> set fs. printable ops (py_round4 ops v)"
  shows "py_split_comma (combined_str ops fs dstr) =
           map (\<lambda>v. py_str ops (py_round4 ops v)) fs @ py_split_comma dstr"
proof -
  let ?xs = "map (py_str ops) (map (py_round4 ops) fs)"
  have ne: "?xs \<noteq> []"
    using assms(1) by simp
  have nc: "\<forall>x \<in> set ?xs. CHR '','' \<notin> set x"
    using assms(2) by (auto simp: printable_def)
  have "split_sep [] (py_join_comma ?xs @ '', '' @ dstr) = ([] @ hd ?xs) # tl ?xs @ split_sep [] dstr"
    using ne nc by (rule split_sep_join_rest)
  also have "\<dots> = ?xs @ split_sep [] dstr"
    using ne by (cases ?xs) simp_all
  finally show ?thesis
    by (simp add: py_split_comma_def combined_str_def Let_def comp_def)
qed

lemma all_features_nonempty:
  assumes "fs \<noteq> []" and "\<forall>v \<in> set fs. printable ops (py_round4 ops v)"
  shows "all_features ops fs dstr =
     (case float_all ops (py_split_comma dstr) of
        None \<Rightarrow> Inl ValueError
      | Some dv \<Rightarrow> Inr (map (\<lambda>v. reread ops (py_round4 ops v)) fs @ dv))"
proof -
  have "float_all ops (map (py_str ops) (map (py_round4 ops) fs)) =
      Some (map (reread ops) (map (py_round4 ops) fs))"
    using assms(2) by (intro float_all_printable) simp
  then have "float_all ops (map (\<lambda>v. py_str ops (py_round4 ops v)) fs) =
      Some (map (\<lambda>v. reread ops (py_round4 ops v)) fs)"
    by (simp add: comp_def)
  then show ?thesis
    unfolding all_features_def py_split_comma_combined [OF assms] float_all_append
    by (simp split: option.splits)
qed

lemma all_features_empty:
  assumes "py_float ops [] = None"
  shows "all_features ops [] dstr = Inl ValueError"
proof -
  have "py_split_comma (combined_str ops [] dstr) = [] # split_sep [] dstr"
    by (simp add: py_split_comma_def combined_str_def)
  then show ?thesis
    using assms by (simp add: all_features_def)
qed

lemma SELECTED_DESCRIPTORS_nonempty: "SELECTED_DESCRIPTORS \<noteq> []"
  using length_SELECTED_DESCRIPTORS by auto

lemma calculate_descriptors_tokens:
  assumes "\<forall>nm \<in> set SELECTED_DESCRIPTORS. printable ops (d nm m)"
  shows "py_split_comma (calculate_descriptors ops d m) =
           map (\<lambda>nm. py_str ops (d nm m)) SELECTED_DESCRIPTORS"
    and "float_all ops (py_split_comma (calculate_descriptors ops d m)) =
           Some (map (\<lambda>nm. reread ops (d nm m)) SELECTED_DESCRIPTORS)"
proof -
  let ?vals = "map (\<lambda>nm. d nm m) SELECTED_DESCRIPTORS"
  have cd: "calculate_descriptors ops d m = py_join_comma (map (py_str ops) ?vals)"
    by (simp add: calculate_descriptors_def CalcDescriptors_def)
  have pr: "\<forall>v \<in> set ?vals. printable ops v"
    using assms by simp
  then have nc: "\<forall>x \<in> set (map (py_str ops) ?vals). CHR '','' \<notin> set x"
    by (auto simp: printable_def)
  have ne: "map (py_str ops) ?vals \<noteq> []"
    using SELECTED_DESCRIPTORS_nonempty by simp
  have tok: "py_split_comma (calculate_descriptors ops d m) = map (py_str ops) ?vals"
    unfolding cd using ne nc by (rule py_split_comma_join)
  then show "py_split_comma (calculate_descriptors ops d m) =
           map (\<lambda>nm. py_str ops (d nm m)) SELECTED_DESCRIPTORS"
    by (simp add: comp_def)
  have "float_all ops (map (py_str ops) ?vals) = Some (map (reread ops) ?vals)"
    using pr by (rule float_all_printable)
  then show "float_all ops (py_split_comma (calculate_descriptors ops d m)) =
           Some (map (\<lambda>nm. reread ops (d nm m)) SELECTED_DESCRIPTORS)"
    unfolding tok by (simp add: comp_def)
qed

lemma process_mol_block_descriptors:
  "process_mol_block ops rd mol_block = Inr (m, dstr, smiles) \<Longrightarrow>
   dstr = calculate_descriptors ops (Descriptor rd) m"
  by (auto simp: process_mol_block_def Let_def split: option.splits sum.splits)


subsection \<open>Dative bonds\<close>

text \<open>
  Where no metal has a donor among its neighbours, the conversion of the bonds changes
  nothing, and \<open>set_dative_bonds\<close> returns what sanitization makes of the molecule.
\<close>

lemma convert_neighbors_no_donor:
  "\<forall>n \<in> set ns. GetAtomicNum (GetAtoms m ! n) \<notin> set donor_atoms \<Longrightarrow>
   convert_neighbors donor_atoms metal ns m = Some m"
  by (induction ns) simp_all

lemma convert_bonds_to_dative_no_donor:
  "\<forall>metal \<in> set metals. \<forall>n \<in> set (GetNeighbors m metal).
      GetAtomicNum (GetAtoms m ! n) \<notin> set donor_atoms \<Longrightarrow>
   convert_bonds_to_dative donor_atoms metals m = Some m"
  by (induction metals) (simp_all add: convert_neighbors_no_donor)

lemma set_dative_bonds_no_donor:
  assumes "\<forall>metal \<in> set (find_transition_metals m). \<forall>n \<in> set (GetNeighbors m metal).
      GetAtomicNum (GetAtoms m ! n) \<notin> set donor_atoms"
  shows "set_dative_bonds rd m donor_atoms = Inr (SanitizeMol rd m)"
  using convert_bonds_to_dative_no_donor [OF assms]
  by (simp add: set_dative_bonds_def)

subsection \<open>Transition-metal classifier\<close>

text \<open>
  C3. \<open>is_transition_metal\<close> is false exactly for the atomic numbers 1, 5 to 9,
  14 to 17 and 35, and true for every other atomic number; it is defined on every
  atom.
\<close>

theorem is_transition_metal_table:
  "is_transition_metal a =
     (GetAtomicNum a \<notin> {1, 5, 6, 7, 8, 9, 14, 15, 16, 17, 35})"
proof -
  have "(5 \<le> n \<and> n \<le> 9) = (n \<in> {5, 6, 7, 8, 9})"
    and "(14 \<le> n \<and> n \<le> 17) = (n \<in> {14, 15, 16, 17})" for n :: int
    by auto
  then show ?thesis
    unfolding is_transition_metal_def Let_def HYDROGEN_def BROMINE_def
      BORON_TO_FLUORINE_RANGE_def SILICON_TO_CHLORINE_RANGE_def fst_conv snd_conv
    by auto
qed

theorem is_transition_metal_table_witness:
  "is_transition_metal \<lparr>GetAtomicNum = 26\<rparr> \<and> \<not> is_transition_metal \<lparr>GetAtomicNum = 7\<rparr>
   \<and> \<not> is_transition_metal \<lparr>GetAtomicNum = 35\<rparr> \<and> is_transition_metal \<lparr>GetAtomicNum = 36\<rparr>"
  using is_transition_metal_table [of "\<lparr>GetAtomicNum = 26\<rparr>"]
    is_transition_metal_table [of "\<lparr>GetAtomicNum = 7\<rparr>"]
    is_transition_metal_table [of "\<lparr>GetAtomicNum = 35\<rparr>"]
    is_transition_metal_table [of "\<lparr>GetAtomicNum = 36\<rparr>"]
  by simp

subsection \<open>Parsing the feature line\<close>

text \<open>
  C9. \<open>parse_features\<close> returns the floats of the whitespace-separated tokens of the
  line after the first two (a token is a maximal run of characters that are not
  whitespace); a line of two or fewer tokens gives the empty list; and it raises, and
  then \<open>InvalidInputError\<close>, exactly when \<^verbatim>\<open>float\<close> rejects a kept token.
\<close>

theorem parse_features_tokens:
  "parse_features ops line =
     (if \<exists>t \<in> set (drop 2 (py_split line)). py_float ops t = None
      then Inl InvalidInputError
      else Inr (map (\<lambda>t. the (py_float ops t)) (drop 2 (py_split line))))
   \<and> (length (py_split line) \<le> 2 \<longrightarrow> parse_features ops line = Inr [])
   \<and> (\<forall>e. parse_features ops line = Inl e \<longleftrightarrow>
         e = InvalidInputError \<and> (\<exists>t \<in> set (drop 2 (py_split line)). py_float ops t = None))
   \<and> (\<forall>t \<in> set (py_split line). t \<noteq> [] \<and> (\<forall>c \<in> set t. \<not> py_isspace c))
   \<and> concat (py_split line) = filter (\<lambda>c. \<not> py_isspace c) line"
proof -
  have eq: "parse_features ops line =
     (if \<exists>t \<in> set (drop 2 (py_split line)). py_float ops t = None
      then Inl InvalidInputError
      else Inr (map (\<lambda>t. the (py_float ops t)) (drop 2 (py_split line))))"
    by (rule parse_features_eq)
  have short: "length (py_split line) \<le> 2 \<longrightarrow> parse_features ops line = Inr []"
    by (simp add: eq)
  have err: "\<forall>e. parse_features ops line = Inl e \<longleftrightarrow>
         e = InvalidInputError \<and> (\<exists>t \<in> set (drop 2 (py_split line)). py_float ops t = None)"
    by (auto simp: eq)
  have toks: "\<forall>t \<in> set (py_split line). t \<noteq> [] \<and> (\<forall>c \<in> set t. \<not> py_isspace c)"
    unfolding py_split_def using split_ws_tokens [of _ "[]" line] by simp
  have cat: "concat (py_split line) = filter (\<lambda>c. \<not> py_isspace c) line"
    by (simp add: py_split_def split_ws_concat)
  from eq short err toks cat show ?thesis
    by (intro conjI)
qed

theorem parse_features_tokens_witness:
  "parse_features whole_numbers ''logK 0.5'' = Inr []
   \<and> parse_features whole_numbers ''x0 x1 1 2.0 30 '' = Inr [1, 2, 30]
   \<and> parse_features whole_numbers ''x0 x1 1 two'' = Inl InvalidInputError"
proof -
  have a: "length (py_split ''logK 0.5'') \<le> 2"
    by code_simp
  have b: "drop 2 (py_split ''x0 x1 1 2.0 30 '') = [''1'', ''2.0'', ''30'']"
    by code_simp
  have c: "drop 2 (py_split ''x0 x1 1 two'') = [''1'', ''two'']"
    by code_simp
  have f: "py_float whole_numbers ''1'' = Some 1" "py_float whole_numbers ''2.0'' = Some 2"
    "py_float whole_numbers ''30'' = Some 30" "py_float whole_numbers ''two'' = None"
    by code_simp+
  from parse_features_tokens [of whole_numbers "''logK 0.5''"] a
  have 1: "parse_features whole_numbers ''logK 0.5'' = Inr []"
    by blast
  from parse_features_tokens [of whole_numbers "''x0 x1 1 2.0 30 ''"]
  have 2: "parse_features whole_numbers ''x0 x1 1 2.0 30 '' = Inr [1, 2, 30]"
    unfolding b by (simp add: f)
  from parse_features_tokens [of whole_numbers "''x0 x1 1 two''"]
  have 3: "parse_features whole_numbers ''x0 x1 1 two'' = Inl InvalidInputError"
    unfolding c by (simp add: f)
  from 1 2 3 show ?thesis
    by (intro conjI)
qed

subsection \<open>Masking\<close>

text \<open>
  C5. Feature assembly is a function of its inputs. Indexing a vector by a mask of the
  same length selects exactly the entries at the indices where the mask is true, in
  ascending order of index, so the output has as many entries as the mask has true
  ones; and when the array of parsed values has the length of \<open>FEATURE_MASK\<close>, the
  assembly returns these entries, printed and joined.
\<close>

theorem masked_features_selection:
  assumes "length a = length msk"
    and "all_features ops fs dstr = Inr vs"
    and "length vs = length FEATURE_MASK"
  shows "np_bool_index a msk = Inr (map ((!) a) (filter ((!) msk) [0..<length msk]))
       \<and> length (map ((!) a) (filter ((!) msk) [0..<length msk])) = count_list msk True
       \<and> masked_features ops fs dstr =
           Inr (map ((!) vs) (filter ((!) FEATURE_MASK) [0..<length FEATURE_MASK]))
       \<and> combine_features ops fs dstr =
           Inr (py_join_comma (map (np_str ops)
             (map ((!) vs) (filter ((!) FEATURE_MASK) [0..<length FEATURE_MASK]))))"
proof -
  have 1: "np_bool_index a msk = Inr (map ((!) a) (filter ((!) msk) [0..<length msk]))"
    using assms(1) by (simp add: np_bool_index_def np_bool_index_nth)
  have 2: "length (map ((!) a) (filter ((!) msk) [0..<length msk])) = count_list msk True"
    by (simp add: count_filter_nth)
  have 3: "masked_features ops fs dstr =
      Inr (map ((!) vs) (filter ((!) FEATURE_MASK) [0..<length FEATURE_MASK]))"
    using assms(2,3) by (simp add: masked_features_def np_bool_index_def np_bool_index_nth)
  have 4: "combine_features ops fs dstr =
      Inr (py_join_comma (map (np_str ops)
        (map ((!) vs) (filter ((!) FEATURE_MASK) [0..<length FEATURE_MASK]))))"
    by (simp only: combine_features_def 3 sum.case)
  from 1 2 3 4 show ?thesis
    by (intro conjI)
qed

theorem masked_features_selection_witness:
  "np_bool_index [10, 20, 30 :: nat] [True, False, True] = Inr [10, 30]
   \<and> combine_features whole_numbers [1, 2, 3, 4, 5, 6, 7, 8, 9, 10]
       (calculate_descriptors whole_numbers (\<lambda>nm m. 7) ()) =
     Inr ''2.0, 5.0, 6.0, 7.0, 8.0, 9.0, 10.0, 7.0, 7.0, 7.0, 7.0, 7.0, 7.0, 7.0, 7.0, 7.0, 7.0, 7.0, 7.0, 7.0, 7.0''"
proof -
  let ?vs = "[1, 2, 3, 4, 5, 6, 7, 8, 9, 10] @ replicate 40 (7 :: nat)"
  have h1: "length [10, 20, 30 :: nat] = length [True, False, True]"
    by simp
  have h2: "all_features whole_numbers [1, 2, 3, 4, 5, 6, 7, 8, 9, 10]
      (calculate_descriptors whole_numbers (\<lambda>nm m. 7) ()) = Inr ?vs"
    by code_simp
  have h3: "length ?vs = length FEATURE_MASK"
    by (simp add: length_FEATURE_MASK)
  have e1: "map ((!) [10, 20, 30 :: nat]) (filter ((!) [True, False, True]) [0..<length [True, False, True]]) = [10, 30]"
    by code_simp
  have e2: "py_join_comma (map (np_str whole_numbers)
        (map ((!) ?vs) (filter ((!) FEATURE_MASK) [0..<length FEATURE_MASK]))) =
      ''2.0, 5.0, 6.0, 7.0, 8.0, 9.0, 10.0, 7.0, 7.0, 7.0, 7.0, 7.0, 7.0, 7.0, 7.0, 7.0, 7.0, 7.0, 7.0, 7.0, 7.0''"
    by code_simp
  from masked_features_selection [OF h1 h2 h3] show ?thesis
    unfolding e1 e2 by blast
qed

subsection \<open>Length of the mask and of the combined vector\<close>

text \<open>
  C1, as the code has it. The code has no check of the two lengths and no
  configuration error. Where the scalar features print without a comma and read back,
  and the descriptor string reads as the vector \<open>dv\<close>: with at least one scalar
  feature the array of parsed values is the rounded features followed by \<open>dv\<close>, and
  when its length differs from the length of the mask the indexing raises the array
  library's \<open>IndexError\<close>; with no scalar feature the empty feature string does not
  read as a float and \<open>ValueError\<close> is raised. Nothing is truncated or padded: a
  result is returned only when the two lengths agree.
\<close>

theorem combine_features_length_mismatch:
  assumes "\<forall>v \<in> set fs. printable ops (py_round4 ops v)"
    and "float_all ops (py_split_comma dstr) = Some dv"
    and "py_float ops [] = None"
  shows "(fs \<noteq> [] \<longrightarrow>
            all_features ops fs dstr = Inr (map (\<lambda>v. reread ops (py_round4 ops v)) fs @ dv))
       \<and> (fs \<noteq> [] \<and> length fs + length dv \<noteq> length FEATURE_MASK \<longrightarrow>
            combine_features ops fs dstr = Inl IndexError)
       \<and> (fs = [] \<longrightarrow> combine_features ops fs dstr = Inl ValueError)
       \<and> (\<forall>out. combine_features ops fs dstr = Inr out \<longrightarrow>
            fs \<noteq> [] \<and> length fs + length dv = length FEATURE_MASK)"
proof -
  have af: "all_features ops fs dstr = Inr (map (\<lambda>v. reread ops (py_round4 ops v)) fs @ dv)"
    if "fs \<noteq> []"
    using all_features_nonempty [OF that assms(1), of dstr] assms(2) by simp
  have mism: "combine_features ops fs dstr = Inl IndexError"
    if "fs \<noteq> []" and "length fs + length dv \<noteq> length FEATURE_MASK"
    using af [OF that(1)] that(2)
    by (simp add: combine_features_def masked_features_def np_bool_index_def)
  have emp: "combine_features ops fs dstr = Inl ValueError" if "fs = []"
    using all_features_empty [OF assms(3), of dstr] that
    by (simp add: combine_features_def masked_features_def)
  have ok: "fs \<noteq> [] \<and> length fs + length dv = length FEATURE_MASK"
    if "combine_features ops fs dstr = Inr out" for out
  proof -
    have ne: "fs \<noteq> []"
      using emp that by auto
    moreover have "length fs + length dv = length FEATURE_MASK"
      using mism [OF ne] that by auto
    ultimately show ?thesis by simp
  qed
  from af mism emp ok show ?thesis
    by blast
qed

theorem combine_features_length_mismatch_witness:
  "combine_features whole_numbers [1] ''7.0, 7.0'' = Inl IndexError
   \<and> combine_features whole_numbers [] ''7.0, 7.0'' = Inl ValueError"
proof -
  have p1: "\<forall>v \<in> set [1]. printable whole_numbers (py_round4 whole_numbers v)"
    by code_simp
  have p0: "\<forall>v \<in> set []. printable whole_numbers (py_round4 whole_numbers v)"
    by simp
  have d: "float_all whole_numbers (py_split_comma ''7.0, 7.0'') = Some [7, 7]"
    by code_simp
  have e: "py_float whole_numbers [] = None"
    by code_simp
  have n: "[1 :: nat] \<noteq> [] \<and> length [1 :: nat] + length [7, 7 :: nat] \<noteq> length FEATURE_MASK"
    by (simp add: length_FEATURE_MASK)
  from combine_features_length_mismatch [OF p1 d e] n
  have 1: "combine_features whole_numbers [1] ''7.0, 7.0'' = Inl IndexError"
    by blast
  from combine_features_length_mismatch [OF p0 d e]
  have 2: "combine_features whole_numbers [] ''7.0, 7.0'' = Inl ValueError"
    by blast
  from 1 2 show ?thesis ..
qed

text \<open>
  C1 as stated fails: nine scalar features and the forty descriptors make a combined
  vector of 49 values, and the assembly raises \<open>IndexError\<close>.
\<close>

theorem combine_features_configuration_error_counterexample:
  "all_features whole_numbers [1, 2, 3, 4, 5, 6, 7, 8, 9]
      (calculate_descriptors whole_numbers (\<lambda>nm m. 7) ()) =
     Inr ([1, 2, 3, 4, 5, 6, 7, 8, 9] @ replicate 40 7)
   \<and> length ([1, 2, 3, 4, 5, 6, 7, 8, 9 :: nat] @ replicate 40 7) \<noteq> length FEATURE_MASK
   \<and> combine_features whole_numbers [1, 2, 3, 4, 5, 6, 7, 8, 9]
      (calculate_descriptors whole_numbers (\<lambda>nm m. 7) ()) = Inl IndexError"
proof -
  have 1: "all_features whole_numbers [1, 2, 3, 4, 5, 6, 7, 8, 9]
      (calculate_descriptors whole_numbers (\<lambda>nm m. 7) ()) =
     Inr ([1, 2, 3, 4, 5, 6, 7, 8, 9] @ replicate 40 7)"
    by code_simp
  have 2: "length ([1, 2, 3, 4, 5, 6, 7, 8, 9 :: nat] @ replicate 40 7) \<noteq> length FEATURE_MASK"
    by (simp add: length_FEATURE_MASK)
  have 3: "combine_features whole_numbers [1, 2, 3, 4, 5, 6, 7, 8, 9]
      (calculate_descriptors whole_numbers (\<lambda>nm m. 7) ()) = Inl IndexError"
    unfolding combine_features_def masked_features_def 1
    by (simp add: np_bool_index_def length_FEATURE_MASK)
  from 1 2 3 show ?thesis
    by (intro conjI)
qed

subsection \<open>Descriptor vector and combined vector\<close>

text \<open>
  C4. The list of selected descriptors has 40 names, the descriptor vector has one
  value for each name in the order of the list, and its string splits into the 40
  printed values in that order. For a feature line of 12 tokens whose last ten read as
  numbers, ten scalar features are kept and the combined vector, the rounded scalar
  features followed by the 40 descriptor values, has length 50. (The numbers are
  supposed to print without a comma and to read back.)
\<close>

theorem combined_vector_length:
  assumes "length (py_split line) = 12"
    and "\<forall>t \<in> set (drop 2 (py_split line)).
           case py_float ops t of None \<Rightarrow> False | Some v \<Rightarrow> printable ops (py_round4 ops v)"
    and "\<forall>nm \<in> set SELECTED_DESCRIPTORS. printable ops (d nm m)"
  shows "length SELECTED_DESCRIPTORS = 40
       \<and> length (CalcDescriptors d SELECTED_DESCRIPTORS m) = 40
       \<and> py_split_comma (calculate_descriptors ops d m) =
           map (\<lambda>nm. py_str ops (d nm m)) SELECTED_DESCRIPTORS
       \<and> (\<exists>fs. parse_features ops line = Inr fs \<and> length fs = 10
            \<and> all_features ops fs (calculate_descriptors ops d m) =
                Inr (map (\<lambda>v. reread ops (py_round4 ops v)) fs @
                     map (\<lambda>nm. reread ops (d nm m)) SELECTED_DESCRIPTORS)
            \<and> length (map (\<lambda>v. reread ops (py_round4 ops v)) fs @
                       map (\<lambda>nm. reread ops (d nm m)) SELECTED_DESCRIPTORS) = 50)"
proof -
  let ?kept = "drop 2 (py_split line)"
  let ?fs = "map (\<lambda>t. the (py_float ops t)) ?kept"
  have parsed: "\<forall>t \<in> set ?kept. py_float ops t \<noteq> None"
    using assms(2) by (auto split: option.splits)
  then have pf: "parse_features ops line = Inr ?fs"
    using parse_features_eq [of ops line] by auto
  have len: "length ?fs = 10"
    using assms(1) by simp
  then have ne: "?fs \<noteq> []"
    by auto
  have pr: "\<forall>v \<in> set ?fs. printable ops (py_round4 ops v)"
    using assms(2) by (auto split: option.splits)
  have af: "all_features ops ?fs (calculate_descriptors ops d m) =
      Inr (map (\<lambda>v. reread ops (py_round4 ops v)) ?fs @
           map (\<lambda>nm. reread ops (d nm m)) SELECTED_DESCRIPTORS)"
    using all_features_nonempty [OF ne pr, of "calculate_descriptors ops d m"]
      calculate_descriptors_tokens(2) [where ops = ops and d = d and m = m, OF assms(3)]
    by simp
  have l50: "length (map (\<lambda>v. reread ops (py_round4 ops v)) ?fs @
       map (\<lambda>nm. reread ops (d nm m)) SELECTED_DESCRIPTORS) = 50"
    using len by (simp add: length_SELECTED_DESCRIPTORS)
  have ex: "\<exists>fs. parse_features ops line = Inr fs \<and> length fs = 10
      \<and> all_features ops fs (calculate_descriptors ops d m) =
          Inr (map (\<lambda>v. reread ops (py_round4 ops v)) fs @
               map (\<lambda>nm. reread ops (d nm m)) SELECTED_DESCRIPTORS)
      \<and> length (map (\<lambda>v. reread ops (py_round4 ops v)) fs @
                 map (\<lambda>nm. reread ops (d nm m)) SELECTED_DESCRIPTORS) = 50"
    using pf len af l50 by blast
  have c: "length (CalcDescriptors d SELECTED_DESCRIPTORS m) = 40"
    by (simp add: CalcDescriptors_def length_SELECTED_DESCRIPTORS)
  from length_SELECTED_DESCRIPTORS c calculate_descriptors_tokens(1) [where ops = ops and d = d and m = m, OF assms(3)] ex
  show ?thesis
    by (intro conjI)
qed

theorem combined_vector_length_witness:
  "\<exists>fs. parse_features whole_numbers ''x0 x1 1 1 2 0 1 150 20 0 0 0'' = Inr fs \<and> length fs = 10
     \<and> all_features whole_numbers fs (calculate_descriptors whole_numbers (\<lambda>nm m. 7) ()) =
         Inr (map (\<lambda>v. reread whole_numbers (py_round4 whole_numbers v)) fs @
              map (\<lambda>nm. reread whole_numbers 7) SELECTED_DESCRIPTORS)
     \<and> length (map (\<lambda>v. reread whole_numbers (py_round4 whole_numbers v)) fs @
                map (\<lambda>nm. reread whole_numbers 7) SELECTED_DESCRIPTORS) = 50"
proof -
  have h1: "length (py_split ''x0 x1 1 1 2 0 1 150 20 0 0 0'') = 12"
    by code_simp
  have h2: "\<forall>t \<in> set (drop 2 (py_split ''x0 x1 1 1 2 0 1 150 20 0 0 0'')).
           case py_float whole_numbers t of None \<Rightarrow> False
           | Some v \<Rightarrow> printable whole_numbers (py_round4 whole_numbers v)"
    by code_simp
  have h3: "\<forall>nm \<in> set SELECTED_DESCRIPTORS. printable whole_numbers 7"
    by code_simp
  from combined_vector_length
    [where ops = whole_numbers and d = "\<lambda>nm m. 7" and m = "()", OF h1 h2 h3]
  show ?thesis
    by blast
qed

subsection \<open>The mask and the features file\<close>

lemma length_feature_header: "length (py_split_comma feature_header) = 10"
  by (simp add: py_split_comma_def feature_header_def)

lemma masked_features_length:
  assumes "all_features ops fs dstr = Inr vs" and "length vs = length FEATURE_MASK"
  shows "\<exists>ms. masked_features ops fs dstr = Inr ms \<and> length ms = 21
          \<and> combine_features ops fs dstr = Inr (py_join_comma (map (np_str ops) ms))"
proof -
  let ?ms = "map ((!) vs) (filter ((!) FEATURE_MASK) [0..<length FEATURE_MASK])"
  have m: "masked_features ops fs dstr = Inr ?ms"
    using assms by (simp add: masked_features_def np_bool_index_def np_bool_index_nth)
  have l: "length ?ms = 21"
    by (simp only: length_map count_filter_nth count_FEATURE_MASK)
  have c: "combine_features ops fs dstr = Inr (py_join_comma (map (np_str ops) ?ms))"
    by (simp only: combine_features_def m sum.case)
  from m l c show ?thesis
    by blast
qed

text \<open>
  C10. \<open>FEATURE_MASK\<close> has length 50 and 21 true entries, and the header of the
  features file names 10 features. For a prediction call with 10 scalar features whose
  MOL block is processed, the masked vector has exactly 21 values, and the features
  file handed to the prediction engine is the header line followed by the line of
  these 21 values. (The numbers are supposed to print without a comma and to read
  back.)
\<close>

theorem masked_vector_has_21_values:
  assumes "length fs = 10"
    and "\<forall>v \<in> set fs. printable ops (py_round4 ops v)"
    and "process_mol_block ops rd mol_block = Inr (m, dstr, smiles)"
    and "\<forall>nm \<in> set SELECTED_DESCRIPTORS. printable ops (Descriptor rd nm m)"
  shows "length FEATURE_MASK = 50
       \<and> count_list FEATURE_MASK True = 21
       \<and> length (py_split_comma feature_header) = 10
       \<and> (\<exists>ms. masked_features ops fs dstr = Inr ms \<and> length ms = 21
            \<and> predict ops rd chemprop fs mol_block =
                chemprop (''smiles'' @ [CHR 10] @ smiles @ [CHR 10])
                  (feature_header @ [CHR 10] @ py_join_comma (map (np_str ops) ms) @ [CHR 10]))"
proof -
  have ne: "fs \<noteq> []"
    using assms(1) by auto
  have ds: "dstr = calculate_descriptors ops (Descriptor rd) m"
    using assms(3) by (rule process_mol_block_descriptors)
  let ?vs = "map (\<lambda>v. reread ops (py_round4 ops v)) fs @
             map (\<lambda>nm. reread ops (Descriptor rd nm m)) SELECTED_DESCRIPTORS"
  have af: "all_features ops fs dstr = Inr ?vs"
    unfolding ds
    using all_features_nonempty [OF ne assms(2), of "calculate_descriptors ops (Descriptor rd) m"]
      calculate_descriptors_tokens(2)
        [where ops = ops and d = "Descriptor rd" and m = m, OF assms(4)]
    by simp
  have len: "length ?vs = length FEATURE_MASK"
    using assms(1) by (simp add: length_SELECTED_DESCRIPTORS length_FEATURE_MASK)
  from masked_features_length [OF af len] obtain ms where
    ms: "masked_features ops fs dstr = Inr ms" "length ms = 21"
      "combine_features ops fs dstr = Inr (py_join_comma (map (np_str ops) ms))"
    by blast
  have "predict ops rd chemprop fs mol_block =
      chemprop (''smiles'' @ [CHR 10] @ smiles @ [CHR 10])
        (feature_header @ [CHR 10] @ py_join_comma (map (np_str ops) ms) @ [CHR 10])"
    by (simp add: predict_def assms(3) ms(3) create_input_files_def)
  with ms(1,2) have "\<exists>ms. masked_features ops fs dstr = Inr ms \<and> length ms = 21
      \<and> predict ops rd chemprop fs mol_block =
          chemprop (''smiles'' @ [CHR 10] @ smiles @ [CHR 10])
            (feature_header @ [CHR 10] @ py_join_comma (map (np_str ops) ms) @ [CHR 10])"
    by blast
  with length_FEATURE_MASK count_FEATURE_MASK length_feature_header show ?thesis
    by (intro conjI)
qed

theorem masked_vector_has_21_values_witness:
  "\<exists>ms. masked_features whole_numbers [1, 2, 3, 4, 5, 6, 7, 8, 9, 10]
            (calculate_descriptors whole_numbers (\<lambda>nm m. 7) ()) = Inr ms \<and> length ms = 21
     \<and> predict whole_numbers one_molecule engine_3 [1, 2, 3, 4, 5, 6, 7, 8, 9, 10] ''mol'' =
         engine_3 (''smiles'' @ [CHR 10] @ ''N->[Fe]<-N'' @ [CHR 10])
           (feature_header @ [CHR 10] @ py_join_comma (map (np_str whole_numbers) ms) @ [CHR 10])"
proof -
  let ?m = "\<lparr>GetAtoms = [\<lparr>GetAtomicNum = 26\<rparr>, \<lparr>GetAtomicNum = 7\<rparr>, \<lparr>GetAtomicNum = 7\<rparr>],
      GetBonds = [\<lparr>GetBeginAtomIdx = 1, GetEndAtomIdx = 0, GetBondType = DATIVE\<rparr>,
                  \<lparr>GetBeginAtomIdx = 2, GetEndAtomIdx = 0, GetBondType = DATIVE\<rparr>]\<rparr>"
  have h1: "length [1, 2, 3, 4, 5, 6, 7, 8, 9, 10 :: nat] = 10"
    by simp
  have h2: "\<forall>v \<in> set [1, 2, 3, 4, 5, 6, 7, 8, 9, 10].
      printable whole_numbers (py_round4 whole_numbers v)"
    by code_simp
  have h3: "process_mol_block whole_numbers one_molecule ''mol'' =
      Inr (?m, calculate_descriptors whole_numbers (\<lambda>nm m. 7) (), ''N->[Fe]<-N'')"
    by code_simp
  have h4: "\<forall>nm \<in> set SELECTED_DESCRIPTORS. printable whole_numbers (Descriptor one_molecule nm ?m)"
    by code_simp
  from masked_vector_has_21_values [where chemprop = engine_3, OF h1 h2 h3 h4]
  show ?thesis
    by blast
qed

subsection \<open>Malformed input records\<close>

lemma extract_mol_block_no_terminator:
  "lines \<noteq> [] \<Longrightarrow> \<forall>l \<in> set lines. py_strip l \<noteq> ''$$$$'' \<Longrightarrow>
   extract_mol_block lines = Inr (concat lines)"
proof -
  assume ne: "lines \<noteq> []" and nt: "\<forall>l \<in> set lines. py_strip l \<noteq> ''$$$$''"
  from nt have tw: "takeWhile (\<lambda>line. py_strip line \<noteq> ''$$$$'') lines = lines"
    by (simp add: takeWhile_eq_all_conv)
  show ?thesis
    unfolding extract_mol_block_def Let_def tw using ne by simp
qed

lemma extract_mol_block_first_terminator:
  "lines \<noteq> [] \<Longrightarrow> py_strip (hd lines) = ''$$$$'' \<Longrightarrow>
   extract_mol_block lines = Inl InvalidInputError"
  by (cases lines) (simp_all add: extract_mol_block_def)

lemma parse_features_error:
  "parse_features ops line = Inl e \<Longrightarrow> e = InvalidInputError"
  by (simp add: parse_features_eq split: if_splits)

text \<open>
  C2, as the code has it. A path that does not exist raises \<open>InvalidInputError\<close>.
  A path that exists but that \<^verbatim>\<open>open\<close> refuses, or whose bytes do not decode,
  raises \<open>OSError\<close> or \<open>UnicodeDecodeError\<close>, whatever the record holds. For a
  file that reads, \<open>predict_from_file\<close> raises \<open>InvalidInputError\<close> when it has
  fewer than 3 lines, when its third line is the \<^verbatim>\<open>$$$$\<close> line (the structural
  block is empty), and when \<^verbatim>\<open>float\<close> rejects a kept token of the feature line. A
  missing \<^verbatim>\<open>$$$$\<close> line is not an error of its own: all the lines from the third on
  are the MOL block, and the call returns whatever \<open>predict\<close> returns for the parsed
  features and this block.
\<close>

theorem predict_from_file_malformed:
  "predict_from_file ops rd chemprop Absent = Inl InvalidInputError
   \<and> predict_from_file ops rd chemprop OpenFails = Inl OSError
   \<and> predict_from_file ops rd chemprop DecodeFails = Inl UnicodeDecodeError
   \<and> (length lines < 3 \<longrightarrow>
        predict_from_file ops rd chemprop (Lines lines) = Inl InvalidInputError)
   \<and> (3 \<le> length lines \<and> py_strip (lines ! 2) = ''$$$$'' \<longrightarrow>
        predict_from_file ops rd chemprop (Lines lines) = Inl InvalidInputError)
   \<and> (3 \<le> length lines \<and> (\<exists>t \<in> set (drop 2 (py_split (lines ! 1))). py_float ops t = None) \<longrightarrow>
        predict_from_file ops rd chemprop (Lines lines) = Inl InvalidInputError)
   \<and> (3 \<le> length lines \<and> parse_features ops (lines ! 1) = Inr fs
        \<and> (\<forall>l \<in> set (drop 2 lines). py_strip l \<noteq> ''$$$$'') \<longrightarrow>
        predict_from_file ops rd chemprop (Lines lines) =
          predict ops rd chemprop fs (concat (drop 2 lines)))"
proof -
  have absent: "predict_from_file ops rd chemprop Absent = Inl InvalidInputError"
    by (simp add: predict_from_file_def)
  have refused: "predict_from_file ops rd chemprop OpenFails = Inl OSError"
    by (simp add: predict_from_file_def)
  have undecodable: "predict_from_file ops rd chemprop DecodeFails = Inl UnicodeDecodeError"
    by (simp add: predict_from_file_def)
  have short: "predict_from_file ops rd chemprop (Lines lines) = Inl InvalidInputError"
    if "length lines < 3"
    using that by (simp add: predict_from_file_def)
  have empty_block: "predict_from_file ops rd chemprop (Lines lines) = Inl InvalidInputError"
    if "3 \<le> length lines" and "py_strip (lines ! 2) = ''$$$$''"
  proof -
    have ne: "drop 2 lines \<noteq> []"
      using that(1) by simp
    have "hd (drop 2 lines) = lines ! 2"
      using that(1) by (simp add: hd_drop_conv_nth)
    with that(2) have "extract_mol_block (drop 2 lines) = Inl InvalidInputError"
      using ne by (intro extract_mol_block_first_terminator) simp_all
    then show ?thesis
      using that(1) parse_features_error [of ops "lines ! 1"]
      by (auto simp: predict_from_file_def split: sum.splits)
  qed
  have bad_token: "predict_from_file ops rd chemprop (Lines lines) = Inl InvalidInputError"
    if "3 \<le> length lines" and "\<exists>t \<in> set (drop 2 (py_split (lines ! 1))). py_float ops t = None"
    using that by (simp add: predict_from_file_def parse_features_eq)
  have no_term: "predict_from_file ops rd chemprop (Lines lines) =
      predict ops rd chemprop fs (concat (drop 2 lines))"
    if "3 \<le> length lines" and "parse_features ops (lines ! 1) = Inr fs"
      and "\<forall>l \<in> set (drop 2 lines). py_strip l \<noteq> ''$$$$''"
  proof -
    have ne: "drop 2 lines \<noteq> []"
      using that(1) by simp
    from extract_mol_block_no_terminator [OF ne that(3)] that(1,2)
    show ?thesis
      by (simp add: predict_from_file_def)
  qed
  from absent refused undecodable short empty_block bad_token no_term show ?thesis
    by blast
qed

theorem predict_from_file_malformed_witness:
  "predict_from_file whole_numbers no_parse engine_3
       (Lines [''header\<newline>'', ''x0 x1 1\<newline>'']) = Inl InvalidInputError
   \<and> predict_from_file whole_numbers no_parse engine_3
       (Lines [''header\<newline>'', ''x0 x1 1\<newline>'', ''$$$$\<newline>'', ''junk\<newline>'']) =
     Inl InvalidInputError
   \<and> predict_from_file whole_numbers no_parse engine_3
       (Lines [''header\<newline>'', ''x0 x1 1\<newline>'', ''junk\<newline>'', ''more\<newline>'']) =
     predict whole_numbers no_parse engine_3 [1] ''junk\<newline>more\<newline>''"
proof -
  note inst = predict_from_file_malformed
    [where ops = whole_numbers and rd = no_parse and chemprop = engine_3]
  have a: "length [''header\<newline>'', ''x0 x1 1\<newline>''] < 3"
    by simp
  have b: "3 \<le> length [''header\<newline>'', ''x0 x1 1\<newline>'', ''$$$$\<newline>'', ''junk\<newline>'']
      \<and> py_strip ([''header\<newline>'', ''x0 x1 1\<newline>'', ''$$$$\<newline>'', ''junk\<newline>''] ! 2) = ''$$$$''"
    by code_simp
  have c: "3 \<le> length [''header\<newline>'', ''x0 x1 1\<newline>'', ''junk\<newline>'', ''more\<newline>'']
      \<and> parse_features whole_numbers
            ([''header\<newline>'', ''x0 x1 1\<newline>'', ''junk\<newline>'', ''more\<newline>''] ! 1) = Inr [1]
      \<and> (\<forall>l \<in> set (drop 2 [''header\<newline>'', ''x0 x1 1\<newline>'', ''junk\<newline>'', ''more\<newline>'']).
            py_strip l \<noteq> ''$$$$'')"
    by code_simp
  have d: "concat (drop 2 [''header\<newline>'', ''x0 x1 1\<newline>'', ''junk\<newline>'', ''more\<newline>'']) =
      ''junk\<newline>more\<newline>''"
    by simp
  from inst [of "[''header\<newline>'', ''x0 x1 1\<newline>'']"] a
  have 1: "predict_from_file whole_numbers no_parse engine_3
       (Lines [''header\<newline>'', ''x0 x1 1\<newline>'']) = Inl InvalidInputError"
    by blast
  from inst [of "[''header\<newline>'', ''x0 x1 1\<newline>'', ''$$$$\<newline>'', ''junk\<newline>'']"] b
  have 2: "predict_from_file whole_numbers no_parse engine_3
       (Lines [''header\<newline>'', ''x0 x1 1\<newline>'', ''$$$$\<newline>'', ''junk\<newline>'']) =
     Inl InvalidInputError"
    by blast
  from inst [of "[''header\<newline>'', ''x0 x1 1\<newline>'', ''junk\<newline>'', ''more\<newline>'']" "[1]"] c
  have 3: "predict_from_file whole_numbers no_parse engine_3
       (Lines [''header\<newline>'', ''x0 x1 1\<newline>'', ''junk\<newline>'', ''more\<newline>'']) =
     predict whole_numbers no_parse engine_3 [1]
       (concat (drop 2 [''header\<newline>'', ''x0 x1 1\<newline>'', ''junk\<newline>'', ''more\<newline>'']))"
    by blast
  from 1 2 3 show ?thesis
    unfolding d by (intro conjI)
qed

text \<open>
  C2 as stated fails: a record of three lines without a \<^verbatim>\<open>$$$$\<close> line is handed to
  \<open>predict\<close>, and with a block that the parser rejects the call raises
  \<open>MolecularProcessingError\<close>.
\<close>

theorem predict_from_file_missing_terminator_counterexample:
  "list_all (\<lambda>l. py_strip l \<noteq> ''$$$$'') [''header\<newline>'', ''x0 x1 1\<newline>'', ''junk\<newline>'']
   \<and> predict_from_file whole_numbers no_parse engine_3
        (Lines [''header\<newline>'', ''x0 x1 1\<newline>'', ''junk\<newline>'']) = Inl MolecularProcessingError"
  by code_simp

subsection \<open>Regular expressions\<close>













lemma re_sub_no_match:
  "first_match g1 g2 (c # cs) = None \<Longrightarrow> re_sub g1 g2 repl (c # cs) = c # re_sub g1 g2 repl cs"
  by simp












text \<open>
  The order of the two substitutions shows: on \<^verbatim>\<open>->[HH+]<-\<close> the first substitution
  makes a match for the second, and the other order gives another string.
\<close>

lemma clean_smiles_order_example:
  "clean_smiles ''->[HH+]<-'' = ''->[+]<-''
   \<and> re_sub dative_open_metal hydrogen_count (\<lambda>g1 g2. g1)
        (re_sub hydrogen_count charge_dative_close (\<lambda>g1 g2. g2) ''->[HH+]<-'') = ''->[H+]<-''"
  by code_simp

subsection \<open>Cleaning the linear notation\<close>



end
